theory Spec2Isabelle
  imports Main "HOL-Library.Multiset"
begin

section \<open>Documents\<close>

text \<open>
  The two mongoose schemas. An ObjectId of a stored document is kept as its hex string,
  24 lower-case digits, which is also what \<^verbatim>\<open>user.id\<close> puts into a token. A string
  that arrives in \<^verbatim>\<open>req.params\<close> or \<^verbatim>\<open>req.user.id\<close> is any string; mongoose casts
  it before it looks a document up. A date is the number of milliseconds that
  \<^verbatim>\<open>Date.now\<close> returns.
\<close>

text \<open>models/User.js: an entry of \<^verbatim>\<open>games\<close> is an object \<^verbatim>\<open>{ game: ObjectId }\<close>.\<close>

record completed =
  game :: string

record user =
  u_id :: string
  email :: string
  password :: string
  admin :: bool
  games :: "completed list"
  u_date :: int

text \<open>
  The Game schema: \<^verbatim>\<open>title\<close> is required, as are the \<^verbatim>\<open>content\<close> of a question and
  the \<^verbatim>\<open>content\<close> and \<^verbatim>\<open>correct\<close> of an answer. A string field that the request
  leaves out is the empty string here (the required-validator of mongoose and
  \<^verbatim>\<open>notEmpty\<close> reject both alike); \<^verbatim>\<open>correct\<close> left out is \<open>None\<close>.
\<close>

record answer =
  correct :: "bool option"
  a_content :: string

record question =
  q_order :: "int option"
  q_content :: string
  answers :: "answer list"

record game =
  g_id :: string
  g_title :: string
  g_icon :: "string option"
  g_order :: "int option"
  g_theory :: "string option"
  questions :: "question list"
  g_date :: int

text \<open>The document store: the collections behind the models \<^verbatim>\<open>user\<close> and \<^verbatim>\<open>game\<close>.\<close>

record store =
  user_coll :: "user list"
  game_coll :: "game list"

section \<open>What the handlers get from outside\<close>

text \<open>
  The libraries the handlers call are not part of the repository; what they decide is
  a parameter: the cast of a string to an ObjectId (the hex string of the ObjectId, or
  \<open>None\<close> where mongoose throws its cast error), the \<^verbatim>\<open>isEmail\<close> validator, the
  bcrypt hash under the salt of this request, the ObjectId that \<^verbatim>\<open>new Model(...)\<close>
  draws and the clock.
\<close>

record env =
  castObjectId :: "string \<Rightarrow> string option"
  isEmail :: "string \<Rightarrow> bool"
  bcrypt_hash :: "string \<Rightarrow> string"
  new_id :: string
  now :: int

text \<open>
  What a handler can throw. Only the cast error of mongoose carries
  \<^verbatim>\<open>kind === "ObjectId"\<close>; reading a property of \<^verbatim>\<open>null\<close> is a TypeError.
\<close>

datatype js_error = CastError | TypeError | ValidationError | MongoError

definition kind_ObjectId :: "js_error \<Rightarrow> bool" where
  "kind_ObjectId err = (err = CastError)"

section \<open>Responses\<close>

text \<open>
  The payload that \<^verbatim>\<open>jwt.sign\<close> signs, with the claims that \<^verbatim>\<open>expiresIn\<close> adds (in
  seconds). The signature itself is not modelled.
\<close>

record token =
  payload_user_id :: string
  iat :: int
  exp :: int

datatype body =
    Errors "string list"
  | Msg string
  | Text string
  | TokenJson token
  | UserJson user
  | GameJson game
  | GamesJson "game list"

record response =
  status :: nat
  body :: body

definition server_error :: response where
  "server_error = \<lparr>status = 500, body = Text ''Server error''\<rparr>"

text \<open>
  The catch block of the handlers that look a document up by a path parameter:
  \<^verbatim>\<open>if (err.kind === "ObjectId") return res.status(404).json({ msg })\<close>, else 500.
\<close>

definition catch_ObjectId :: "string \<Rightarrow> js_error \<Rightarrow> response" where
  "catch_ObjectId msg err =
     (if kind_ObjectId err then \<lparr>status = 404, body = Msg msg\<rparr> else server_error)"

section \<open>Model operations\<close>

text \<open>
  \<^verbatim>\<open>findById\<close> casts its argument and looks for the document with that ObjectId, so
  two strings with the same cast find the same document.
\<close>

definition User_findById :: "env \<Rightarrow> store \<Rightarrow> string \<Rightarrow> js_error + user option" where
  "User_findById e s i =
     (case castObjectId e i of
        None \<Rightarrow> Inl CastError
      | Some oid \<Rightarrow> Inr (find (\<lambda>u. u_id u = oid) (user_coll s)))"

definition Game_findById :: "env \<Rightarrow> store \<Rightarrow> string \<Rightarrow> js_error + game option" where
  "Game_findById e s i =
     (case castObjectId e i of
        None \<Rightarrow> Inl CastError
      | Some oid \<Rightarrow> Inr (find (\<lambda>g. g_id g = oid) (game_coll s)))"

definition User_findOne :: "store \<Rightarrow> string \<Rightarrow> user option" where
  "User_findOne s em = find (\<lambda>u. email u = em) (user_coll s)"

text \<open>
  Removing and replacing the first document that matches, as one write does. The
  handlers call \<^verbatim>\<open>delete()\<close> without awaiting it and answer at once; the store
  returned with the answer is the store once the write has landed.
\<close>

fun delete_first :: "('a \<Rightarrow> bool) \<Rightarrow> 'a list \<Rightarrow> 'a list" where
  "delete_first p [] = []"
| "delete_first p (x # xs) = (if p x then xs else x # delete_first p xs)"

fun replace_first :: "('a \<Rightarrow> bool) \<Rightarrow> 'a \<Rightarrow> 'a list \<Rightarrow> 'a list" where
  "replace_first p y [] = []"
| "replace_first p y (x # xs) = (if p x then y # xs else x # replace_first p y xs)"

definition User_delete :: "user \<Rightarrow> store \<Rightarrow> store" where
  "User_delete u s = s\<lparr>user_coll := delete_first (\<lambda>x. u_id x = u_id u) (user_coll s)\<rparr>"

definition Game_delete :: "game \<Rightarrow> store \<Rightarrow> store" where
  "Game_delete g s = s\<lparr>game_coll := delete_first (\<lambda>x. g_id x = g_id g) (game_coll s)\<rparr>"

text \<open>
  \<^verbatim>\<open>save\<close> of a document that was loaded from the store writes it back. The
  documents of the store went through the schema when they were inserted, so writing
  one back with a longer \<^verbatim>\<open>games\<close> list passes validation.
\<close>

definition User_update :: "user \<Rightarrow> store \<Rightarrow> store" where
  "User_update u s = s\<lparr>user_coll := replace_first (\<lambda>x. u_id x = u_id u) u (user_coll s)\<rparr>"

text \<open>
  \<^verbatim>\<open>save\<close> of a new document: the required fields are validated, then the document is
  inserted; the store refuses a second document with the same \<^verbatim>\<open>_id\<close>, and a second
  user with the same \<^verbatim>\<open>email\<close> (\<^verbatim>\<open>unique: true\<close>).
\<close>

definition User_insert :: "user \<Rightarrow> store \<Rightarrow> js_error + store" where
  "User_insert u s =
     (if email u = [] \<or> password u = [] then Inl ValidationError
      else if list_ex (\<lambda>x. u_id x = u_id u \<or> email x = email u) (user_coll s)
        then Inl MongoError
      else Inr (s\<lparr>user_coll := user_coll s @ [u]\<rparr>))"

definition answer_ok :: "answer \<Rightarrow> bool" where
  "answer_ok a = (correct a \<noteq> None \<and> a_content a \<noteq> [])"

definition question_ok :: "question \<Rightarrow> bool" where
  "question_ok q = (q_content q \<noteq> [] \<and> list_all answer_ok (answers q))"

definition Game_insert :: "game \<Rightarrow> store \<Rightarrow> js_error + store" where
  "Game_insert g s =
     (if g_title g = [] \<or> \<not> list_all question_ok (questions g) then Inl ValidationError
      else if list_ex (\<lambda>x. g_id x = g_id g) (game_coll s) then Inl MongoError
      else Inr (s\<lparr>game_coll := game_coll s @ [g]\<rparr>))"

text \<open>\<^verbatim>\<open>Game.find().sort({ date: -1 })\<close>: every game, the latest date first.\<close>

definition Game_find_sorted :: "store \<Rightarrow> game list" where
  "Game_find_sorted s = sort_key (\<lambda>g. - g_date g) (game_coll s)"

section \<open>routes/games.js\<close>

record game_body =
  b_title :: string
  b_icon :: "string option"
  b_order :: "int option"
  b_startText :: "string option"
  b_endText :: "string option"
  b_questions :: "question list"

text \<open>\<^verbatim>\<open>check("title", "Title field can't be empty").notEmpty()\<close>\<close>

definition title_check :: "game_body \<Rightarrow> string list" where
  "title_check b = (if b_title b = [] then [''Title field can't be empty''] else [])"

text \<open>
  \<^verbatim>\<open>new Game({ title, icon, order, startText, endText, questions })\<close>: the schema has no
  path \<^verbatim>\<open>startText\<close> or \<^verbatim>\<open>endText\<close>, so the two are dropped, and \<^verbatim>\<open>theory\<close> stays
  unset.
\<close>

definition new_Game :: "env \<Rightarrow> game_body \<Rightarrow> game" where
  "new_Game e b =
     \<lparr>g_id = new_id e, g_title = b_title b, g_icon = b_icon b, g_order = b_order b,
      g_theory = None, questions = b_questions b, g_date = now e\<rparr>"

text \<open>
  \<^verbatim>\<open>router.post("/", [auth, ...])\<close>, after the middleware has attached
  \<^verbatim>\<open>req.user.id\<close> (here \<open>uid\<close>).
\<close>

definition post_games :: "env \<Rightarrow> store \<Rightarrow> string \<Rightarrow> game_body \<Rightarrow> response \<times> store" where
  "post_games e s uid b =
     (let errors = title_check b in
      if errors \<noteq> [] then (\<lparr>status = 400, body = Errors errors\<rparr>, s)
      else
        (case User_findById e s uid of
           Inl err \<Rightarrow> (server_error, s)
         | Inr None \<Rightarrow> (server_error, s)
         | Inr (Some adm) \<Rightarrow>
             if \<not> admin adm then
               (\<lparr>status = 401,
                 body = Msg ''Not authorizend. Only administrators can add new games.''\<rparr>, s)
             else
               (case Game_insert (new_Game e b) s of
                  Inl err \<Rightarrow> (server_error, s)
                | Inr s' \<Rightarrow> (\<lparr>status = 200, body = GameJson (new_Game e b)\<rparr>, s'))))"

text \<open>\<^verbatim>\<open>router.get("/")\<close>: no middleware, no identity.\<close>

definition get_games :: "store \<Rightarrow> response \<times> store" where
  "get_games s = (\<lparr>status = 200, body = GamesJson (Game_find_sorted s)\<rparr>, s)"

text \<open>\<^verbatim>\<open>router.get("/:game_id", auth)\<close>\<close>

definition get_game :: "env \<Rightarrow> store \<Rightarrow> string \<Rightarrow> response \<times> store" where
  "get_game e s game_id =
     (case Game_findById e s game_id of
        Inl err \<Rightarrow> (catch_ObjectId ''Game not found'' err, s)
      | Inr None \<Rightarrow> (\<lparr>status = 404, body = Msg ''Game not found''\<rparr>, s)
      | Inr (Some g) \<Rightarrow> (\<lparr>status = 200, body = GameJson g\<rparr>, s))"

text \<open>
  The callback of \<^verbatim>\<open>user.games.every\<close> is an arrow function with a block body:
  \<^verbatim>\<open>(element) => { element.game != req.params.game_id; }\<close>. The comparison is an
  expression statement, the block has no \<^verbatim>\<open>return\<close>, so the call yields
  \<^verbatim>\<open>undefined\<close>. \<^verbatim>\<open>every\<close> holds when the callback's result is truthy at every
  element, hence on the empty array.
\<close>

datatype jsval = Undefined | Boolean bool

fun truthy :: "jsval \<Rightarrow> bool" where
  "truthy Undefined = False"
| "truthy (Boolean b) = b"

definition every :: "('a \<Rightarrow> jsval) \<Rightarrow> 'a list \<Rightarrow> bool" where
  "every f xs = list_all (\<lambda>x. truthy (f x)) xs"

definition every_callback :: "string \<Rightarrow> completed \<Rightarrow> jsval" where
  "every_callback game_id element =
     (let discarded = Boolean (game element \<noteq> game_id) in Undefined)"

text \<open>
  \<^verbatim>\<open>user.games.push({ game: req.params.game_id })\<close>: the schema declares \<^verbatim>\<open>game\<close> an
  ObjectId, so the element holds the cast of the string. The handler pushes only a
  string that \<^verbatim>\<open>Game.findById\<close> has cast before; the other case keeps the string.
\<close>

definition pushed :: "env \<Rightarrow> string \<Rightarrow> completed" where
  "pushed e game_id =
     \<lparr>game = (case castObjectId e game_id of Some oid \<Rightarrow> oid | None \<Rightarrow> game_id)\<rparr>"

text \<open>\<^verbatim>\<open>router.put("/complete/:game_id", auth)\<close>\<close>

definition put_complete :: "env \<Rightarrow> store \<Rightarrow> string \<Rightarrow> string \<Rightarrow> response \<times> store" where
  "put_complete e s uid game_id =
     (case User_findById e s uid of
        Inl err \<Rightarrow> (catch_ObjectId ''Game not found'' err, s)
      | Inr usr \<Rightarrow>
          (case Game_findById e s game_id of
             Inl err \<Rightarrow> (catch_ObjectId ''Game not found'' err, s)
           | Inr None \<Rightarrow> (\<lparr>status = 404, body = Msg ''Game not found''\<rparr>, s)
           | Inr (Some g) \<Rightarrow>
               (case usr of
                  None \<Rightarrow> (catch_ObjectId ''Game not found'' TypeError, s)
                | Some u \<Rightarrow>
                    (let u' = (if every (every_callback game_id) (games u)
                               then u\<lparr>games := games u @ [pushed e game_id]\<rparr>
                               else u)
                     in (\<lparr>status = 200, body = UserJson u'\<rparr>, User_update u' s)))))"

text \<open>\<^verbatim>\<open>router.delete("/:game_id", auth)\<close>\<close>

definition delete_game :: "env \<Rightarrow> store \<Rightarrow> string \<Rightarrow> string \<Rightarrow> response \<times> store" where
  "delete_game e s uid game_id =
     (case Game_findById e s game_id of
        Inl err \<Rightarrow> (catch_ObjectId ''Game not found'' err, s)
      | Inr gm \<Rightarrow>
          (case User_findById e s uid of
             Inl err \<Rightarrow> (catch_ObjectId ''Game not found'' err, s)
           | Inr adm \<Rightarrow>
               (case gm of
                  None \<Rightarrow> (\<lparr>status = 404, body = Msg ''Game not found''\<rparr>, s)
                | Some g \<Rightarrow>
                    (case adm of
                       None \<Rightarrow> (catch_ObjectId ''Game not found'' TypeError, s)
                     | Some a \<Rightarrow>
                         if admin a then
                           (\<lparr>status = 200,
                             body = Msg ''Game successfully deleted from our platform''\<rparr>,
                            Game_delete g s)
                         else
                           (\<lparr>status = 401, body = Msg ''Not allowed to delete this game''\<rparr>,
                            s)))))"

section \<open>routes/users.js\<close>

record register_body =
  r_email :: string
  r_password :: string

text \<open>
  \<^verbatim>\<open>check("email", ...).isEmail()\<close> and \<^verbatim>\<open>check("password", ...).isLength({ min: 6 })\<close>;
  a field left out is the empty string, which \<^verbatim>\<open>isLength\<close> rejects likewise.
\<close>

definition register_checks :: "env \<Rightarrow> register_body \<Rightarrow> string list" where
  "register_checks e b =
     (if isEmail e (r_email b) then [] else [''Please include a valid email'']) @
     (if 6 \<le> length (r_password b) then []
      else [''Please enter a password with 6 or more characters''])"

text \<open>
  \<^verbatim>\<open>jwt.sign(payload, process.env.SECRET, { expiresIn: "5d" }, ...)\<close> with the payload
  \<^verbatim>\<open>{ user: { id: user.id } }\<close>; the login route writes \<^verbatim>\<open>"5 days"\<close>, the same span.
\<close>

definition jwt_sign :: "env \<Rightarrow> string \<Rightarrow> token" where
  "jwt_sign e uid =
     \<lparr>payload_user_id = uid, iat = now e div 1000,
      exp = now e div 1000 + 5 * 24 * 60 * 60\<rparr>"

text \<open>\<^verbatim>\<open>router.post("/")\<close>: registration.\<close>

definition post_users :: "env \<Rightarrow> store \<Rightarrow> register_body \<Rightarrow> response \<times> store" where
  "post_users e s b =
     (let errors = register_checks e b in
      if errors \<noteq> [] then (\<lparr>status = 400, body = Errors errors\<rparr>, s)
      else
        (case User_findOne s (r_email b) of
           Some existing \<Rightarrow> (\<lparr>status = 400, body = Errors [''User already exists'']\<rparr>, s)
         | None \<Rightarrow>
             (let usr = \<lparr>u_id = new_id e, email = r_email b,
                         password = bcrypt_hash e (r_password b), admin = False,
                         games = [], u_date = now e\<rparr>
              in case User_insert usr s of
                   Inl err \<Rightarrow> (server_error, s)
                 | Inr s' \<Rightarrow>
                     (\<lparr>status = 200, body = TokenJson (jwt_sign e (u_id usr))\<rparr>, s'))))"

text \<open>\<^verbatim>\<open>router.delete("/:user_id", auth)\<close>\<close>

definition delete_user :: "env \<Rightarrow> store \<Rightarrow> string \<Rightarrow> string \<Rightarrow> response \<times> store" where
  "delete_user e s uid user_id =
     (case User_findById e s user_id of
        Inl err \<Rightarrow> (catch_ObjectId ''User not found'' err, s)
      | Inr usr \<Rightarrow>
          (case User_findById e s uid of
             Inl err \<Rightarrow> (catch_ObjectId ''User not found'' err, s)
           | Inr adm \<Rightarrow>
               (case usr of
                  None \<Rightarrow> (\<lparr>status = 404, body = Msg ''User not found''\<rparr>, s)
                | Some u \<Rightarrow>
                    (case adm of
                       None \<Rightarrow> (catch_ObjectId ''User not found'' TypeError, s)
                     | Some a \<Rightarrow>
                         if admin a \<or> user_id = uid then
                           (\<lparr>status = 200,
                             body = Msg ''User successfully deleted from our platform''\<rparr>,
                            User_delete u s)
                         else
                           (\<lparr>status = 401, body = Msg ''Not allowed to delete this user''\<rparr>,
                            s)))))"

section \<open>The auth middleware and the routers\<close>

text \<open>
  Modelled from the spec: \<^verbatim>\<open>middleware/auth.js\<close> is required by both routers and is
  not among the sources. The spec: with no token in the header the request is rejected
  with an "unauthorized" outcome and the handler is never invoked; with a token that
  \<open>verify\<close> reports invalid the request is rejected with the same outcome; with a valid
  token the embedded user id is attached and the handler is invoked once. The
  rejection is the HTTP status "unauthorized", which the route annotations of the
  sources list as \<^verbatim>\<open>401: Not authorized\<close>, with a body \<^verbatim>\<open>{ msg: string }\<close>. The
  token check and the text of the message are parameters.
\<close>

record auth_params =
  verify :: "string \<Rightarrow> string option"
  unauthorized_msg :: string

definition auth :: "auth_params \<Rightarrow> string option \<Rightarrow> response + string" where
  "auth a x_auth_token =
     (case x_auth_token of
        None \<Rightarrow> Inl \<lparr>status = 401, body = Msg (unauthorized_msg a)\<rparr>
      | Some t \<Rightarrow>
          (case verify a t of
             None \<Rightarrow> Inl \<lparr>status = 401, body = Msg (unauthorized_msg a)\<rparr>
           | Some uid \<Rightarrow> Inr uid))"

definition with_auth ::
  "auth_params \<Rightarrow> string option \<Rightarrow> store \<Rightarrow> (string \<Rightarrow> response \<times> store) \<Rightarrow> response \<times> store"
where
  "with_auth a x_auth_token s handler =
     (case auth a x_auth_token of Inl r \<Rightarrow> (r, s) | Inr uid \<Rightarrow> handler uid)"

text \<open>
  The routes as the routers register them: \<^verbatim>\<open>auth\<close> stands before the handler of
  every route but registration and the list of games.
\<close>

datatype request =
    PostUsers register_body
  | DeleteUser string
  | PostGames game_body
  | GetGames
  | GetGame string
  | PutComplete string
  | DeleteGame string

fun route ::
  "auth_params \<Rightarrow> env \<Rightarrow> store \<Rightarrow> string option \<Rightarrow> request \<Rightarrow> response \<times> store"
where
  "route a e s tok (PostUsers b) = post_users e s b"
| "route a e s tok (DeleteUser user_id) =
     with_auth a tok s (\<lambda>uid. delete_user e s uid user_id)"
| "route a e s tok (PostGames b) = with_auth a tok s (\<lambda>uid. post_games e s uid b)"
| "route a e s tok GetGames = get_games s"
| "route a e s tok (GetGame game_id) = with_auth a tok s (\<lambda>uid. get_game e s game_id)"
| "route a e s tok (PutComplete game_id) =
     with_auth a tok s (\<lambda>uid. put_complete e s uid game_id)"
| "route a e s tok (DeleteGame game_id) =
     with_auth a tok s (\<lambda>uid. delete_game e s uid game_id)"

section \<open>A small store to run the handlers on\<close>

text \<open>
  The cast as the driver of the sources' mongoose generation does it: a string of 24
  hex digits is the ObjectId with these digits, where the case of a digit makes no
  difference; a string of 12 characters is the ObjectId with these 12 bytes; every
  other string is refused.
\<close>

definition is_hex :: "char \<Rightarrow> bool" where
  "is_hex c = (c \<in> set ''0123456789abcdefABCDEF'')"

definition lower_hex :: "char \<Rightarrow> char" where
  "lower_hex c = (case map_of (zip ''ABCDEF'' ''abcdef'') c of Some d \<Rightarrow> d | None \<Rightarrow> c)"

definition hex_of_byte :: "char \<Rightarrow> string" where
  "hex_of_byte c =
     [''0123456789abcdef'' ! ((of_char c :: nat) div 16),
      ''0123456789abcdef'' ! ((of_char c :: nat) mod 16)]"

definition castObjectId0 :: "string \<Rightarrow> string option" where
  "castObjectId0 i =
     (if length i = 24 \<and> list_all is_hex i then Some (map lower_hex i)
      else if length i = 12 then Some (concat (map hex_of_byte i))
      else None)"

definition env0 :: env where
  "env0 = \<lparr>castObjectId = castObjectId0, isEmail = (\<lambda>m. CHR ''@'' \<in> set m),
           bcrypt_hash = (\<lambda>p. ''$2a$05$'' @ p), new_id = ''60a000000000000000000009'',
           now = 1620000500000\<rparr>"

definition ann :: user where
  "ann = \<lparr>u_id = ''60a000000000000000000001'', email = ''ann@x.com'',
          password = ''$2a$05$secret1'', admin = False, games = [],
          u_date = 1620000000000\<rparr>"

definition bob :: user where
  "bob = \<lparr>u_id = ''60a000000000000000000002'', email = ''bob@x.com'',
          password = ''$2a$05$secret2'', admin = False,
          games = [\<lparr>game = ''60a0000000000000000000a1''\<rparr>], u_date = 1620000100000\<rparr>"

definition root :: user where
  "root = \<lparr>u_id = ''60a000000000000000000003'', email = ''root@x.com'',
           password = ''$2a$05$secret3'', admin = True, games = [],
           u_date = 1620000200000\<rparr>"

definition quiz1 :: game where
  "quiz1 = \<lparr>g_id = ''60a0000000000000000000a1'', g_title = ''Quiz1'', g_icon = None,
            g_order = Some 2, g_theory = None,
            questions = [\<lparr>q_order = None, q_content = ''Q1'',
                          answers = [\<lparr>correct = Some True, a_content = ''A''\<rparr>]\<rparr>],
            g_date = 1620000300000\<rparr>"

definition quiz2 :: game where
  "quiz2 = \<lparr>g_id = ''60a0000000000000000000a2'', g_title = ''Quiz2'', g_icon = None,
            g_order = Some 1, g_theory = None, questions = [], g_date = 1620000400000\<rparr>"

definition store0 :: store where
  "store0 = \<lparr>user_coll = [ann, bob, root], game_coll = [quiz1, quiz2]\<rparr>"

definition body0 :: game_body where
  "body0 = \<lparr>b_title = ''Quiz1'', b_icon = None, b_order = None, b_startText = None,
            b_endText = None,
            b_questions = [\<lparr>q_order = None, q_content = ''Q1'',
                            answers = [\<lparr>correct = Some True, a_content = ''A''\<rparr>]\<rparr>]\<rparr>"

definition auth0 :: auth_params where
  "auth0 = \<lparr>verify = (\<lambda>t. if t = ''token-of-ann'' then Some (u_id ann) else None),
            unauthorized_msg = ''unauthorized''\<rparr>"

section \<open>Facts about the model operations\<close>

lemmas fixture_defs =
  env0_def store0_def ann_def bob_def root_def quiz1_def quiz2_def body0_def auth0_def
  castObjectId0_def is_hex_def lower_hex_def hex_of_byte_def

subsection \<open>Lists\<close>

lemma find_replace_first:
  assumes "find p xs = Some x" and "p y"
  shows "find p (replace_first p y xs) = Some y"
  using assms by (induction xs) (auto split: if_splits)

lemma replace_first_same:
  assumes "find p xs = Some x"
  shows "replace_first p x xs = xs"
  using assms by (induction xs) (auto split: if_splits)

lemma find_delete_first_distinct:
  assumes "distinct (map f xs)"
  shows "find (\<lambda>x. f x = i) (delete_first (\<lambda>x. f x = i) xs) = None"
  using assms by (induction xs) (auto simp: find_None_iff image_iff)

lemma insort_key_map:
  "insort_key k (h x) (map h xs) = map h (insort_key (\<lambda>y. k (h y)) x xs)"
  by (induction xs) simp_all

lemma sort_key_map: "sort_key k (map h xs) = map h (sort_key (\<lambda>y. k (h y)) xs)"
  by (induction xs) (simp_all add: insort_key_map)

subsection \<open>Lookups and writes\<close>

lemma findById_cases:
  "User_findById e s i = Inl CastError \<or> (\<exists>r. User_findById e s i = Inr r)"
  "Game_findById e s i = Inl CastError \<or> (\<exists>r. Game_findById e s i = Inr r)"
  by (simp_all add: User_findById_def Game_findById_def split: option.splits)

lemma User_findById_not_found:
  assumes "\<And>u. User_findById e s i \<noteq> Inr (Some u)"
  shows "User_findById e s i = Inl CastError \<or> User_findById e s i = Inr None"
proof -
  from findById_cases(1)[of e s i] show ?thesis
  proof
    assume "\<exists>r. User_findById e s i = Inr r"
    then obtain r where r: "User_findById e s i = Inr r" ..
    with assms have "r = None" by (cases r) auto
    with r show ?thesis by simp
  qed simp
qed

lemma Game_findById_not_found:
  assumes "\<And>g. Game_findById e s i \<noteq> Inr (Some g)"
  shows "Game_findById e s i = Inl CastError \<or> Game_findById e s i = Inr None"
proof -
  from findById_cases(2)[of e s i] show ?thesis
  proof
    assume "\<exists>r. Game_findById e s i = Inr r"
    then obtain r where r: "Game_findById e s i = Inr r" ..
    with assms have "r = None" by (cases r) auto
    with r show ?thesis by simp
  qed simp
qed

lemma catch_ObjectId_simps:
  "catch_ObjectId msg CastError = \<lparr>status = 404, body = Msg msg\<rparr>"
  "catch_ObjectId msg TypeError = server_error"
  by (simp_all add: catch_ObjectId_def kind_ObjectId_def)

lemma User_findById_SomeD:
  assumes "User_findById e s i = Inr (Some u)"
  shows "castObjectId e i = Some (u_id u)"
    and "find (\<lambda>x. u_id x = u_id u) (user_coll s) = Some u"
  using assms by (auto simp: User_findById_def find_Some_iff split: option.splits)

lemma Game_findById_SomeD:
  assumes "Game_findById e s i = Inr (Some g)"
  shows "castObjectId e i = Some (g_id g)"
    and "find (\<lambda>x. g_id x = g_id g) (game_coll s) = Some g"
  using assms by (auto simp: Game_findById_def find_Some_iff split: option.splits)

lemma User_findById_same_cast:
  assumes "User_findById e s i = Inr (Some u)" and "User_findById e s j = Inr (Some v)"
    and "u_id u = u_id v"
  shows "u = v"
  using User_findById_SomeD(2)[OF assms(1)] User_findById_SomeD(2)[OF assms(2)]
  unfolding assms(3) by simp

lemma User_findById_update:
  assumes "User_findById e s i = Inr (Some u)" and "u_id u' = u_id u"
  shows "User_findById e (User_update u' s) i = Inr (Some u')"
  using User_findById_SomeD[OF assms(1)] assms(2)
  by (simp add: User_findById_def User_update_def find_replace_first)

lemma User_update_same:
  assumes "User_findById e s i = Inr (Some u)"
  shows "User_update u s = s"
  using User_findById_SomeD[OF assms]
  by (simp add: User_update_def replace_first_same)

lemma User_findById_delete:
  assumes "distinct (map u_id (user_coll s))" and "castObjectId e i = Some (u_id u)"
  shows "User_findById e (User_delete u s) i = Inr None"
  using assms by (simp add: User_findById_def User_delete_def find_delete_first_distinct)

lemma get_game_upper_case:
  "get_game env0 store0 ''60A0000000000000000000A1''
     = (\<lparr>status = 200, body = GameJson quiz1\<rparr>, store0)"
  by (simp add: get_game_def Game_findById_def fixture_defs)

lemma pushed_found:
  assumes "Game_findById e s game_id = Inr (Some g)"
  shows "pushed e game_id = \<lparr>game = g_id g\<rparr>"
  using Game_findById_SomeD(1)[OF assms] by (simp add: pushed_def)

lemma User_findOne_exists:
  assumes "em \<in> set (map email (user_coll s))"
  shows "\<exists>u. User_findOne s em = Some u"
  using assms by (cases "User_findOne s em") (auto simp: User_findOne_def find_None_iff)

lemma sorted_Game_find_sorted:
  "sorted_wrt (\<lambda>g h. g_date h \<le> g_date g) (Game_find_sorted s)"
proof -
  have "sorted (map (\<lambda>g. - g_date g) (Game_find_sorted s))"
    by (simp add: Game_find_sorted_def)
  then show ?thesis
    by (simp add: sorted_map)
qed

lemma Game_find_sorted_order:
  "map g_id (Game_find_sorted (s\<lparr>game_coll := map (\<lambda>g. g\<lparr>g_order := f g\<rparr>) (game_coll s)\<rparr>))
     = map g_id (Game_find_sorted s)"
  by (simp add: Game_find_sorted_def sort_key_map comp_def)

subsection \<open>The handlers, case by case\<close>

lemma every_callback_Undefined: "every_callback game_id element = Undefined"
  by (simp add: every_callback_def)

lemma every_every_callback: "every (every_callback game_id) xs = (xs = [])"
  by (cases xs) (simp_all add: every_def every_callback_Undefined)

lemma put_complete_found:
  assumes usr: "User_findById e s uid = Inr (Some u)"
    and gm: "Game_findById e s game_id = Inr (Some g)"
  shows "put_complete e s uid game_id =
           (\<lparr>status = 200,
             body = UserJson (if games u = [] then u\<lparr>games := [\<lparr>game = g_id g\<rparr>]\<rparr> else u)\<rparr>,
            User_update (if games u = [] then u\<lparr>games := [\<lparr>game = g_id g\<rparr>]\<rparr> else u) s)"
  using usr gm
  by (simp add: put_complete_def every_every_callback Let_def pushed_found[OF gm])

lemma delete_user_missing:
  assumes "\<And>u. User_findById e s user_id \<noteq> Inr (Some u)"
  shows "delete_user e s uid user_id = (\<lparr>status = 404, body = Msg ''User not found''\<rparr>, s)"
  using findById_cases(1)[of e s uid] User_findById_not_found[OF assms]
  by (auto simp: delete_user_def catch_ObjectId_simps)

lemma delete_game_missing:
  assumes "\<And>g. Game_findById e s game_id \<noteq> Inr (Some g)"
  shows "delete_game e s uid game_id = (\<lparr>status = 404, body = Msg ''Game not found''\<rparr>, s)"
  using findById_cases(1)[of e s uid] Game_findById_not_found[OF assms]
  by (auto simp: delete_game_def catch_ObjectId_simps)

lemma get_game_missing:
  assumes "\<And>g. Game_findById e s game_id \<noteq> Inr (Some g)"
  shows "get_game e s game_id = (\<lparr>status = 404, body = Msg ''Game not found''\<rparr>, s)"
  using Game_findById_not_found[OF assms]
  by (auto simp: get_game_def catch_ObjectId_simps)

lemma put_complete_missing:
  assumes "\<And>g. Game_findById e s game_id \<noteq> Inr (Some g)"
  shows "put_complete e s uid game_id = (\<lparr>status = 404, body = Msg ''Game not found''\<rparr>, s)"
  using findById_cases(1)[of e s uid] Game_findById_not_found[OF assms]
  by (auto simp: put_complete_def catch_ObjectId_simps)

lemma delete_user_found:
  assumes target: "User_findById e s user_id = Inr (Some u)"
    and actor: "User_findById e s uid = Inr (Some a)"
  shows "delete_user e s uid user_id =
           (if admin a \<or> user_id = uid
            then (\<lparr>status = 200, body = Msg ''User successfully deleted from our platform''\<rparr>,
                  User_delete u s)
            else (\<lparr>status = 401, body = Msg ''Not allowed to delete this user''\<rparr>, s))"
  using target actor by (simp add: delete_user_def)

lemma delete_game_found:
  assumes target: "Game_findById e s game_id = Inr (Some g)"
    and actor: "User_findById e s uid = Inr (Some a)"
  shows "delete_game e s uid game_id =
           (if admin a
            then (\<lparr>status = 200, body = Msg ''Game successfully deleted from our platform''\<rparr>,
                  Game_delete g s)
            else (\<lparr>status = 401, body = Msg ''Not allowed to delete this game''\<rparr>, s))"
  using target actor by (simp add: delete_game_def)

lemma post_games_not_admin:
  assumes actor: "User_findById e s uid = Inr (Some a)" and "\<not> admin a"
  shows "post_games e s uid b =
           (if b_title b = []
            then (\<lparr>status = 400, body = Errors [''Title field can't be empty'']\<rparr>, s)
            else (\<lparr>status = 401,
                   body = Msg ''Not authorizend. Only administrators can add new games.''\<rparr>, s))"
  using assms by (simp add: post_games_def title_check_def)

lemma post_games_actor_missing:
  assumes "User_findById e s uid = Inr None"
  shows "post_games e s uid b =
           (if b_title b = []
            then (\<lparr>status = 400, body = Errors [''Title field can't be empty'']\<rparr>, s)
            else (server_error, s))"
  using assms by (simp add: post_games_def title_check_def)

lemma delete_game_actor_missing:
  assumes "User_findById e s uid = Inr None" and "Game_findById e s game_id = Inr (Some g)"
  shows "delete_game e s uid game_id = (server_error, s)"
  using assms by (simp add: delete_game_def catch_ObjectId_simps)

lemma delete_game_actor_missing_store:
  assumes "User_findById e s uid = Inr None"
  shows "snd (delete_game e s uid game_id) = s"
  using assms by (simp add: delete_game_def split: sum.splits option.splits)

lemma post_users_existing:
  assumes "r_email b \<in> set (map email (user_coll s))"
  shows "post_users e s b =
           (if register_checks e b = []
            then (\<lparr>status = 400, body = Errors [''User already exists'']\<rparr>, s)
            else (\<lparr>status = 400, body = Errors (register_checks e b)\<rparr>, s))"
  using User_findOne_exists[OF assms] by (auto simp: post_users_def Let_def)

lemma post_users_new:
  assumes "register_checks e b = []" and "User_findOne s (r_email b) = None"
    and "User_insert \<lparr>u_id = new_id e, email = r_email b,
                        password = bcrypt_hash e (r_password b), admin = False,
                        games = [], u_date = now e\<rparr> s = Inr s'"
  shows "post_users e s b =
           (\<lparr>status = 200,
             body = TokenJson \<lparr>payload_user_id = new_id e, iat = now e div 1000,
                                exp = now e div 1000 + 432000\<rparr>\<rparr>, s')"
  using assms by (simp add: post_users_def jwt_sign_def)

lemma auth_rejects:
  "auth a None = Inl \<lparr>status = 401, body = Msg (unauthorized_msg a)\<rparr>"
  "verify a t = None \<Longrightarrow> auth a (Some t) = Inl \<lparr>status = 401, body = Msg (unauthorized_msg a)\<rparr>"
  by (simp_all add: auth_def)

lemma auth_attaches: "verify a t = Some uid \<Longrightarrow> auth a (Some t) = Inr uid"
  by (simp add: auth_def)

lemma with_auth_rejects:
  "with_auth a None s h = (\<lparr>status = 401, body = Msg (unauthorized_msg a)\<rparr>, s)"
  "verify a t = None \<Longrightarrow>
     with_auth a (Some t) s h = (\<lparr>status = 401, body = Msg (unauthorized_msg a)\<rparr>, s)"
  by (simp_all add: with_auth_def auth_rejects)

lemma with_auth_attaches: "verify a t = Some uid \<Longrightarrow> with_auth a (Some t) s h = h uid"
  by (simp add: with_auth_def auth_attaches)

section \<open>Completing a game\<close>

text \<open>
  Claim C2: completing the same game twice leaves exactly one reference to it in the
  list of the user. The source at a user whose list holds another game: \<open>bob\<close> has
  completed \<open>quiz1\<close> and completes \<open>quiz2\<close> twice. Both calls answer 200, neither
  changes the store, and his list holds no reference to \<open>quiz2\<close>.
\<close>

theorem complete_twice_other_game:
  "User_findById env0 store0 (u_id bob) = Inr (Some bob) \<and>
   Game_findById env0 store0 (g_id quiz2) = Inr (Some quiz2) \<and>
   games bob = [\<lparr>game = g_id quiz1\<rparr>] \<and>
   put_complete env0 store0 (u_id bob) (g_id quiz2)
     = (\<lparr>status = 200, body = UserJson bob\<rparr>, store0) \<and>
   put_complete env0 (snd (put_complete env0 store0 (u_id bob) (g_id quiz2))) (u_id bob) (g_id quiz2)
     = (\<lparr>status = 200, body = UserJson bob\<rparr>, store0) \<and>
   length (filter (\<lambda>c. game c = g_id quiz2) (games bob)) = 0"
  by (simp add: put_complete_def User_findById_def Game_findById_def User_update_def
      every_def every_callback_def Let_def fixture_defs)

text \<open>
  Claim C3, as amended. The claim says that every call of the complete-game operation
  appends a reference, whatever the list holds, because the result of the check never
  gates the insert. In the source the \<^verbatim>\<open>push\<close> stands inside the \<^verbatim>\<open>if\<close> on the
  result of \<^verbatim>\<open>every\<close>. For a user and a game that both exist: a call on an empty
  list stores exactly the one reference to the game, and a call on a list that already
  holds a reference to the game (the id of the game, or the string of the request)
  leaves the stored user as it was.
\<close>

theorem complete_appends_only_on_empty_list:
  assumes usr: "User_findById e s uid = Inr (Some u)"
    and gm: "Game_findById e s game_id = Inr (Some g)"
  shows "(games u = [] \<longrightarrow>
            User_findById e (snd (put_complete e s uid game_id)) uid
              = Inr (Some (u\<lparr>games := [\<lparr>game = g_id g\<rparr>]\<rparr>))) \<and>
         (g_id g \<in> set (map game (games u)) \<or> game_id \<in> set (map game (games u)) \<longrightarrow>
            User_findById e (snd (put_complete e s uid game_id)) uid = Inr (Some u))"
proof (cases "games u = []")
  case True
  have "u_id (u\<lparr>games := [\<lparr>game = g_id g\<rparr>]\<rparr>) = u_id u"
    by simp
  with True show ?thesis
    by (simp add: put_complete_found[OF usr gm] User_findById_update[OF usr])
next
  case False
  then show ?thesis
    by (simp add: put_complete_found[OF usr gm] User_update_same[OF usr] usr)
qed

text \<open>The theorem at \<open>ann\<close> (empty list) and at \<open>bob\<close> (who has completed \<open>quiz1\<close>).\<close>

theorem complete_appends_only_on_empty_list_witness:
  "User_findById env0 store0 (u_id ann) = Inr (Some ann) \<and>
   Game_findById env0 store0 (g_id quiz2) = Inr (Some quiz2) \<and>
   games ann = [] \<and>
   User_findById env0 (snd (put_complete env0 store0 (u_id ann) (g_id quiz2))) (u_id ann)
     = Inr (Some (ann\<lparr>games := [\<lparr>game = g_id quiz2\<rparr>]\<rparr>)) \<and>
   User_findById env0 store0 (u_id bob) = Inr (Some bob) \<and>
   Game_findById env0 store0 (g_id quiz1) = Inr (Some quiz1) \<and>
   g_id quiz1 \<in> set (map game (games bob)) \<and>
   User_findById env0 (snd (put_complete env0 store0 (u_id bob) (g_id quiz1))) (u_id bob)
     = Inr (Some bob)"
proof -
  have a: "User_findById env0 store0 (u_id ann) = Inr (Some ann)"
    by (simp add: User_findById_def fixture_defs)
  have b: "Game_findById env0 store0 (g_id quiz2) = Inr (Some quiz2)"
    by (simp add: Game_findById_def fixture_defs)
  have c: "User_findById env0 store0 (u_id bob) = Inr (Some bob)"
    by (simp add: User_findById_def fixture_defs)
  have d: "Game_findById env0 store0 (g_id quiz1) = Inr (Some quiz1)"
    by (simp add: Game_findById_def fixture_defs)
  have e: "games ann = []" by (simp add: ann_def)
  have f: "g_id quiz1 \<in> set (map game (games bob))" by (simp add: bob_def quiz1_def)
  show ?thesis
    using complete_appends_only_on_empty_list[OF a b] complete_appends_only_on_empty_list[OF c d]
      a b c d e f by blast
qed

text \<open>
  Claim C3 as stated fails: \<open>bob\<close> has completed \<open>quiz1\<close>; completing it again answers
  200 with his record unchanged, and the stored list is not the old list with one more
  reference.
\<close>

theorem complete_again_appends_nothing:
  "User_findById env0 store0 (u_id bob) = Inr (Some bob) \<and>
   Game_findById env0 store0 (g_id quiz1) = Inr (Some quiz1) \<and>
   fst (put_complete env0 store0 (u_id bob) (g_id quiz1)) = \<lparr>status = 200, body = UserJson bob\<rparr> \<and>
   User_findById env0 (snd (put_complete env0 store0 (u_id bob) (g_id quiz1))) (u_id bob)
     = Inr (Some bob) \<and>
   games bob \<noteq> games bob @ [\<lparr>game = g_id quiz1\<rparr>]"
  by (simp add: put_complete_def User_findById_def Game_findById_def User_update_def
      every_def every_callback_def Let_def fixture_defs)

section \<open>Missing targets\<close>

text \<open>
  Claim C7: every operation that names its target by id (deleting a user, deleting a
  game, reading one game, completing a game) answers "not found" when the lookup of
  the target finds no document, be it that the id has no cast or that no document has
  the ObjectId. It does so before any permission check: the answer is status 404 with
  the message of the route and an unchanged store for every acting identity, admin or
  not, known to the store or not. And the answer differs from the permission
  rejection: whenever a non-admin is refused the deletion of another user, or of a
  game, that exist, the status of that answer is not the status of the "not found"
  answer.
\<close>

theorem missing_target_not_found:
  assumes "\<And>u. User_findById e s user_id \<noteq> Inr (Some u)"
    and "\<And>g. Game_findById e s game_id \<noteq> Inr (Some g)"
  shows "delete_user e s uid user_id = (\<lparr>status = 404, body = Msg ''User not found''\<rparr>, s) \<and>
         delete_game e s uid game_id = (\<lparr>status = 404, body = Msg ''Game not found''\<rparr>, s) \<and>
         get_game e s game_id = (\<lparr>status = 404, body = Msg ''Game not found''\<rparr>, s) \<and>
         put_complete e s uid game_id = (\<lparr>status = 404, body = Msg ''Game not found''\<rparr>, s) \<and>
         (User_findById e2 s2 user_id2 = Inr (Some u2) \<and>
          User_findById e2 s2 uid2 = Inr (Some a2) \<and> \<not> admin a2 \<and> u_id u2 \<noteq> u_id a2 \<longrightarrow>
            delete_user e2 s2 uid2 user_id2 =
              (\<lparr>status = 401, body = Msg ''Not allowed to delete this user''\<rparr>, s2) \<and>
            status (fst (delete_user e s uid user_id))
              \<noteq> status (fst (delete_user e2 s2 uid2 user_id2))) \<and>
         (Game_findById e2 s2 game_id2 = Inr (Some g2) \<and>
          User_findById e2 s2 uid2 = Inr (Some a2) \<and> \<not> admin a2 \<longrightarrow>
            delete_game e2 s2 uid2 game_id2 =
              (\<lparr>status = 401, body = Msg ''Not allowed to delete this game''\<rparr>, s2) \<and>
            status (fst (delete_game e s uid game_id))
              \<noteq> status (fst (delete_game e2 s2 uid2 game_id2)))"
proof -
  have u: "delete_user e s uid user_id = (\<lparr>status = 404, body = Msg ''User not found''\<rparr>, s)"
    by (rule delete_user_missing) (rule assms(1))
  have g: "delete_game e s uid game_id = (\<lparr>status = 404, body = Msg ''Game not found''\<rparr>, s)"
    by (rule delete_game_missing) (rule assms(2))
  have r: "get_game e s game_id = (\<lparr>status = 404, body = Msg ''Game not found''\<rparr>, s)"
    by (rule get_game_missing) (rule assms(2))
  have c: "put_complete e s uid game_id = (\<lparr>status = 404, body = Msg ''Game not found''\<rparr>, s)"
    by (rule put_complete_missing) (rule assms(2))
  have ru: "delete_user e2 s2 uid2 user_id2 =
              (\<lparr>status = 401, body = Msg ''Not allowed to delete this user''\<rparr>, s2)"
    if "User_findById e2 s2 user_id2 = Inr (Some u2)"
      and "User_findById e2 s2 uid2 = Inr (Some a2)" and "\<not> admin a2" and "u_id u2 \<noteq> u_id a2"
  proof -
    have "user_id2 \<noteq> uid2"
      using User_findById_SomeD(1)[OF that(1)] User_findById_SomeD(1)[OF that(2)] that(4)
      by auto
    with that(3) show ?thesis
      by (simp add: delete_user_found[OF that(1) that(2)])
  qed
  have rg: "delete_game e2 s2 uid2 game_id2 =
              (\<lparr>status = 401, body = Msg ''Not allowed to delete this game''\<rparr>, s2)"
    if "Game_findById e2 s2 game_id2 = Inr (Some g2)"
      and "User_findById e2 s2 uid2 = Inr (Some a2)" and "\<not> admin a2"
    using that(3) by (simp add: delete_game_found[OF that(1) that(2)])
  show ?thesis
    using ru rg by (simp add: u g r c)
qed

text \<open>
  The theorem at two ids that \<open>store0\<close> does not hold, written in upper case, with \<open>ann\<close>
  acting; the rejections are those of \<open>ann\<close> deleting \<open>bob\<close> and deleting \<open>quiz1\<close>.
\<close>

theorem missing_target_not_found_witness:
  "User_findById env0 store0 ''60A0000000000000000000FF'' = Inr None \<and>
   Game_findById env0 store0 ''60A0000000000000000000EE'' = Inr None \<and>
   delete_user env0 store0 (u_id ann) ''60A0000000000000000000FF''
     = (\<lparr>status = 404, body = Msg ''User not found''\<rparr>, store0) \<and>
   delete_game env0 store0 (u_id ann) ''60A0000000000000000000EE''
     = (\<lparr>status = 404, body = Msg ''Game not found''\<rparr>, store0) \<and>
   get_game env0 store0 ''60A0000000000000000000EE''
     = (\<lparr>status = 404, body = Msg ''Game not found''\<rparr>, store0) \<and>
   put_complete env0 store0 (u_id ann) ''60A0000000000000000000EE''
     = (\<lparr>status = 404, body = Msg ''Game not found''\<rparr>, store0) \<and>
   User_findById env0 store0 (u_id bob) = Inr (Some bob) \<and>
   Game_findById env0 store0 (g_id quiz1) = Inr (Some quiz1) \<and>
   User_findById env0 store0 (u_id ann) = Inr (Some ann) \<and>
   \<not> admin ann \<and> u_id bob \<noteq> u_id ann \<and>
   status (fst (delete_user env0 store0 (u_id ann) (u_id bob))) = 401 \<and>
   status (fst (delete_game env0 store0 (u_id ann) (g_id quiz1))) = 401 \<and>
   status (fst (delete_user env0 store0 (u_id ann) ''60A0000000000000000000FF''))
     \<noteq> status (fst (delete_user env0 store0 (u_id ann) (u_id bob))) \<and>
   status (fst (delete_game env0 store0 (u_id ann) ''60A0000000000000000000EE''))
     \<noteq> status (fst (delete_game env0 store0 (u_id ann) (g_id quiz1)))"
proof -
  have mu: "User_findById env0 store0 ''60A0000000000000000000FF'' = Inr None"
    by (simp add: User_findById_def fixture_defs)
  have mg: "Game_findById env0 store0 ''60A0000000000000000000EE'' = Inr None"
    by (simp add: Game_findById_def fixture_defs)
  have nu: "User_findById env0 store0 ''60A0000000000000000000FF'' \<noteq> Inr (Some u)" for u
    by (simp add: mu)
  have ng: "Game_findById env0 store0 ''60A0000000000000000000EE'' \<noteq> Inr (Some g)" for g
    by (simp add: mg)
  have b: "User_findById env0 store0 (u_id bob) = Inr (Some bob)"
    by (simp add: User_findById_def fixture_defs)
  have q: "Game_findById env0 store0 (g_id quiz1) = Inr (Some quiz1)"
    by (simp add: Game_findById_def fixture_defs)
  have a: "User_findById env0 store0 (u_id ann) = Inr (Some ann)"
    by (simp add: User_findById_def fixture_defs)
  have f: "\<not> admin ann" "u_id bob \<noteq> u_id ann"
    by (simp_all add: ann_def bob_def)
  have "status (fst (\<lparr>status = 401, body = m\<rparr>, store0)) = 401" for m
    by simp
  then show ?thesis
    using missing_target_not_found[OF nu ng, of "u_id ann" env0 store0 "u_id bob" bob "u_id ann"
        ann "g_id quiz1" quiz1] mu mg b q a f
    by metis
qed

section \<open>Deleting a user\<close>

text \<open>
  Claim C6, as amended. The claim says that the deletion succeeds exactly when the
  acting id equals the id of the target or the acting user is an admin, and that it is
  rejected as forbidden otherwise. The sources have no forbidden status, and the
  handler compares the strings of the request, not the ids of the records. For an
  acting user and a target user that both exist: when the acting user is an admin or
  the id in the path is the id in the token, the answer is 200 and the target is
  deleted, and is no longer found when the store holds its id once; when the acting
  user is no admin and the target is another user, the request is rejected with status
  401, the store is unchanged and the target is still found. When the path and the
  token both give the id as the store holds it, the deletion succeeds if and only if
  the acting id is the id of the target or the acting user is an admin.
\<close>

theorem delete_user_permission:
  assumes target: "User_findById e s user_id = Inr (Some u)"
    and actor: "User_findById e s uid = Inr (Some a)"
  shows "(admin a \<or> user_id = uid \<longrightarrow>
            delete_user e s uid user_id =
              (\<lparr>status = 200, body = Msg ''User successfully deleted from our platform''\<rparr>,
               User_delete u s) \<and>
            (distinct (map u_id (user_coll s)) \<longrightarrow>
               User_findById e (snd (delete_user e s uid user_id)) user_id = Inr None)) \<and>
         (\<not> admin a \<and> u_id u \<noteq> u_id a \<longrightarrow>
            delete_user e s uid user_id =
              (\<lparr>status = 401, body = Msg ''Not allowed to delete this user''\<rparr>, s) \<and>
            User_findById e (snd (delete_user e s uid user_id)) user_id = Inr (Some u)) \<and>
         (castObjectId e user_id = Some user_id \<and> castObjectId e uid = Some uid \<longrightarrow>
            (status (fst (delete_user e s uid user_id)) = 200) = (u_id a = u_id u \<or> admin a))"
proof -
  have tc: "castObjectId e user_id = Some (u_id u)" and ac: "castObjectId e uid = Some (u_id a)"
    using User_findById_SomeD(1)[OF target] User_findById_SomeD(1)[OF actor] by simp_all
  have same: "u_id u = u_id a" if "user_id = uid"
    using tc ac that by simp
  have first: "delete_user e s uid user_id =
                 (\<lparr>status = 200, body = Msg ''User successfully deleted from our platform''\<rparr>,
                  User_delete u s) \<and>
               (distinct (map u_id (user_coll s)) \<longrightarrow>
                  User_findById e (snd (delete_user e s uid user_id)) user_id = Inr None)"
    if "admin a \<or> user_id = uid"
    using that User_findById_delete[OF _ tc]
    by (auto simp: delete_user_found[OF target actor])
  have second: "delete_user e s uid user_id =
                  (\<lparr>status = 401, body = Msg ''Not allowed to delete this user''\<rparr>, s) \<and>
                User_findById e (snd (delete_user e s uid user_id)) user_id = Inr (Some u)"
    if "\<not> admin a" and "u_id u \<noteq> u_id a"
    using that same target by (auto simp: delete_user_found[OF target actor])
  have third: "(status (fst (delete_user e s uid user_id)) = 200) = (u_id a = u_id u \<or> admin a)"
    if "castObjectId e user_id = Some user_id" and "castObjectId e uid = Some uid"
  proof -
    have ids: "user_id = u_id u" "uid = u_id a"
      using that tc ac by simp_all
    have "(status (fst (delete_user e s uid user_id)) = 200) = (admin a \<or> user_id = uid)"
      by (simp add: delete_user_found[OF target actor])
    also have "\<dots> = (u_id a = u_id u \<or> admin a)"
      using ids by auto
    finally show ?thesis .
  qed
  show ?thesis
    using first second third by blast
qed

text \<open>
  The theorem three times at the target \<open>bob\<close>: \<open>ann\<close> is rejected, \<open>bob\<close> himself and
  the admin \<open>root\<close> succeed.
\<close>

theorem delete_user_permission_witness:
  "User_findById env0 store0 (u_id bob) = Inr (Some bob) \<and>
   User_findById env0 store0 (u_id ann) = Inr (Some ann) \<and>
   User_findById env0 store0 (u_id root) = Inr (Some root) \<and>
   distinct (map u_id (user_coll store0)) \<and>
   castObjectId env0 (u_id bob) = Some (u_id bob) \<and>
   castObjectId env0 (u_id ann) = Some (u_id ann) \<and>
   u_id bob \<noteq> u_id ann \<and> \<not> admin ann \<and> admin root \<and>
   delete_user env0 store0 (u_id ann) (u_id bob)
     = (\<lparr>status = 401, body = Msg ''Not allowed to delete this user''\<rparr>, store0) \<and>
   User_findById env0 (snd (delete_user env0 store0 (u_id ann) (u_id bob))) (u_id bob)
     = Inr (Some bob) \<and>
   status (fst (delete_user env0 store0 (u_id ann) (u_id bob))) \<noteq> 200 \<and>
   delete_user env0 store0 (u_id bob) (u_id bob)
     = (\<lparr>status = 200, body = Msg ''User successfully deleted from our platform''\<rparr>,
        User_delete bob store0) \<and>
   User_findById env0 (snd (delete_user env0 store0 (u_id bob) (u_id bob))) (u_id bob)
     = Inr None \<and>
   delete_user env0 store0 (u_id root) (u_id bob)
     = (\<lparr>status = 200, body = Msg ''User successfully deleted from our platform''\<rparr>,
        User_delete bob store0) \<and>
   User_findById env0 (snd (delete_user env0 store0 (u_id root) (u_id bob))) (u_id bob)
     = Inr None"
proof -
  have b: "User_findById env0 store0 (u_id bob) = Inr (Some bob)"
    by (simp add: User_findById_def fixture_defs)
  have a: "User_findById env0 store0 (u_id ann) = Inr (Some ann)"
    by (simp add: User_findById_def fixture_defs)
  have r: "User_findById env0 store0 (u_id root) = Inr (Some root)"
    by (simp add: User_findById_def fixture_defs)
  have d: "distinct (map u_id (user_coll store0))"
    by (simp add: fixture_defs)
  have c: "castObjectId env0 (u_id bob) = Some (u_id bob)"
    "castObjectId env0 (u_id ann) = Some (u_id ann)"
    by (simp_all add: fixture_defs)
  have f: "u_id bob \<noteq> u_id ann" "\<not> admin ann" "admin root"
    by (simp_all add: ann_def bob_def root_def)
  have rejected:
    "delete_user env0 store0 (u_id ann) (u_id bob)
       = (\<lparr>status = 401, body = Msg ''Not allowed to delete this user''\<rparr>, store0) \<and>
     User_findById env0 (snd (delete_user env0 store0 (u_id ann) (u_id bob))) (u_id bob)
       = Inr (Some bob) \<and>
     status (fst (delete_user env0 store0 (u_id ann) (u_id bob))) \<noteq> 200"
    using delete_user_permission[OF b a] b c f by simp
  have self:
    "delete_user env0 store0 (u_id bob) (u_id bob)
       = (\<lparr>status = 200, body = Msg ''User successfully deleted from our platform''\<rparr>,
          User_delete bob store0) \<and>
     User_findById env0 (snd (delete_user env0 store0 (u_id bob) (u_id bob))) (u_id bob)
       = Inr None"
    using delete_user_permission[OF b b] d by blast
  have by_admin:
    "delete_user env0 store0 (u_id root) (u_id bob)
       = (\<lparr>status = 200, body = Msg ''User successfully deleted from our platform''\<rparr>,
          User_delete bob store0) \<and>
     User_findById env0 (snd (delete_user env0 store0 (u_id root) (u_id bob))) (u_id bob)
       = Inr None"
    using delete_user_permission[OF b r] d f(3) by blast
  show ?thesis
    using rejected self by_admin a b r d c f by blast
qed

text \<open>
  Claim C6 as stated fails. \<open>ann\<close>, who is no admin, names herself with her id in upper
  case: the lookup finds her record, so the acting id is the id of the target, and the
  request is rejected. And the rejection of \<open>ann\<close> deleting \<open>bob\<close> carries status 401,
  which the annotations of the route list as "Not authorized"; they list no other
  status for a refusal.
\<close>

theorem self_delete_upper_case_rejected:
  "User_findById env0 store0 ''60A000000000000000000001'' = Inr (Some ann) \<and>
   User_findById env0 store0 (u_id ann) = Inr (Some ann) \<and>
   delete_user env0 store0 (u_id ann) ''60A000000000000000000001''
     = (\<lparr>status = 401, body = Msg ''Not allowed to delete this user''\<rparr>, store0) \<and>
   u_id ann = ''60a000000000000000000001'' \<and> \<not> admin ann \<and>
   User_findById env0 store0 (u_id bob) = Inr (Some bob) \<and>
   status (fst (delete_user env0 store0 (u_id ann) (u_id bob))) = 401"
  by (simp add: delete_user_def User_findById_def fixture_defs)

section \<open>Permission rejections\<close>

text \<open>
  Claim C4, as amended. The claim says that a request with a valid token whose
  identity lacks the permission is rejected with a "forbidden" status distinct from
  the "unauthorized" status of a missing or invalid token. The sources have no such
  status: a non-admin who creates a game (with a title), a non-admin who deletes a
  game that exists, and a non-admin who deletes another user that exists, each get
  status 401 with a message of the route; a request without a token, or with a token
  that does not verify, gets status 401 on the same routes.
\<close>

theorem permission_rejection_is_401:
  assumes tok: "verify a t = Some uid"
    and actor: "User_findById e s uid = Inr (Some u)"
    and plain: "\<not> admin u"
    and bad: "verify a t' = None"
  shows "(b_title b \<noteq> [] \<longrightarrow>
            fst (route a e s (Some t) (PostGames b)) =
              \<lparr>status = 401,
               body = Msg ''Not authorizend. Only administrators can add new games.''\<rparr>) \<and>
         (Game_findById e s game_id = Inr (Some g) \<longrightarrow>
            fst (route a e s (Some t) (DeleteGame game_id)) =
              \<lparr>status = 401, body = Msg ''Not allowed to delete this game''\<rparr>) \<and>
         (User_findById e s user_id = Inr (Some v) \<and> user_id \<noteq> uid \<longrightarrow>
            fst (route a e s (Some t) (DeleteUser user_id)) =
              \<lparr>status = 401, body = Msg ''Not allowed to delete this user''\<rparr>) \<and>
         status (fst (route a e s None (PostGames b))) = 401 \<and>
         status (fst (route a e s None (DeleteGame game_id))) = 401 \<and>
         status (fst (route a e s None (DeleteUser user_id))) = 401 \<and>
         status (fst (route a e s (Some t') (PostGames b))) = 401 \<and>
         status (fst (route a e s (Some t') (DeleteGame game_id))) = 401 \<and>
         status (fst (route a e s (Some t') (DeleteUser user_id))) = 401"
  using plain
  by (simp add: with_auth_rejects(1) with_auth_rejects(2)[OF bad] with_auth_attaches[OF tok]
      post_games_not_admin[OF actor plain] delete_game_found[OF _ actor]
      delete_user_found[OF _ actor])

text \<open>The theorem at \<open>ann\<close>, who is no admin, with her token and with one that fails.\<close>

theorem permission_rejection_is_401_witness:
  "verify auth0 ''token-of-ann'' = Some (u_id ann) \<and>
   User_findById env0 store0 (u_id ann) = Inr (Some ann) \<and> \<not> admin ann \<and>
   verify auth0 ''expired'' = None \<and>
   b_title body0 \<noteq> [] \<and>
   Game_findById env0 store0 (g_id quiz1) = Inr (Some quiz1) \<and>
   User_findById env0 store0 (u_id bob) = Inr (Some bob) \<and> u_id bob \<noteq> u_id ann \<and>
   status (fst (route auth0 env0 store0 (Some ''token-of-ann'') (PostGames body0))) = 401 \<and>
   status (fst (route auth0 env0 store0 (Some ''token-of-ann'') (DeleteGame (g_id quiz1)))) = 401 \<and>
   status (fst (route auth0 env0 store0 (Some ''token-of-ann'') (DeleteUser (u_id bob)))) = 401 \<and>
   status (fst (route auth0 env0 store0 None (PostGames body0))) = 401 \<and>
   status (fst (route auth0 env0 store0 (Some ''expired'') (PostGames body0))) = 401"
proof -
  have tok: "verify auth0 ''token-of-ann'' = Some (u_id ann)"
    by (simp add: auth0_def)
  have a: "User_findById env0 store0 (u_id ann) = Inr (Some ann)"
    by (simp add: User_findById_def fixture_defs)
  have plain: "\<not> admin ann"
    by (simp add: ann_def)
  have bad: "verify auth0 ''expired'' = None"
    by (simp add: auth0_def)
  have t: "b_title body0 \<noteq> []"
    by (simp add: body0_def)
  have g: "Game_findById env0 store0 (g_id quiz1) = Inr (Some quiz1)"
    by (simp add: Game_findById_def fixture_defs)
  have b: "User_findById env0 store0 (u_id bob) = Inr (Some bob)"
    by (simp add: User_findById_def fixture_defs)
  have ne: "u_id bob \<noteq> u_id ann"
    by (simp add: ann_def bob_def)
  show ?thesis
    using permission_rejection_is_401[OF tok a plain bad, of body0 "g_id quiz1" quiz1 "u_id bob" bob]
      tok a plain bad t g b ne
    by simp
qed

text \<open>
  Claim C4 as stated fails: \<open>ann\<close> holds a valid token and is no admin; her request to
  create a game gets the status that the same request gets with no token at all.
\<close>

theorem non_admin_create_status_of_no_token:
  "verify auth0 ''token-of-ann'' = Some (u_id ann) \<and>
   User_findById env0 store0 (u_id ann) = Inr (Some ann) \<and> \<not> admin ann \<and>
   status (fst (route auth0 env0 store0 (Some ''token-of-ann'') (PostGames body0))) =
   status (fst (route auth0 env0 store0 None (PostGames body0)))"
  by (simp add: with_auth_def auth_def auth0_def post_games_def title_check_def
      User_findById_def fixture_defs)

section \<open>Creating and deleting a game\<close>

text \<open>
  Claim C5, as amended. The claim says that every game-creation request of a
  non-admin yields the permission rejection. The handler validates the body first.
  For an acting user that exists and is no admin: no request inserts a game, the store
  is unchanged; and a request whose title is not empty gets the permission rejection
  (status 401, "Only administrators can add new games").
\<close>

theorem non_admin_create_rejected:
  assumes actor: "User_findById e s uid = Inr (Some u)" and plain: "\<not> admin u"
  shows "snd (post_games e s uid b) = s \<and>
         (b_title b \<noteq> [] \<longrightarrow>
            fst (post_games e s uid b) =
              \<lparr>status = 401,
               body = Msg ''Not authorizend. Only administrators can add new games.''\<rparr>)"
  by (simp add: post_games_not_admin[OF actor plain])

text \<open>The theorem at \<open>ann\<close> and a body with a title.\<close>

theorem non_admin_create_rejected_witness:
  "User_findById env0 store0 (u_id ann) = Inr (Some ann) \<and> \<not> admin ann \<and>
   b_title body0 \<noteq> [] \<and>
   snd (post_games env0 store0 (u_id ann) body0) = store0 \<and>
   fst (post_games env0 store0 (u_id ann) body0) =
     \<lparr>status = 401, body = Msg ''Not authorizend. Only administrators can add new games.''\<rparr>"
proof -
  have a: "User_findById env0 store0 (u_id ann) = Inr (Some ann)"
    by (simp add: User_findById_def fixture_defs)
  have plain: "\<not> admin ann"
    by (simp add: ann_def)
  have t: "b_title body0 \<noteq> []"
    by (simp add: body0_def)
  show ?thesis
    using non_admin_create_rejected[OF a plain, of body0] a plain t by simp
qed

text \<open>
  Claim C5 as stated fails: \<open>ann\<close> is no admin and sends a body with an empty title;
  the answer is the validation failure (status 400), not the permission rejection.
\<close>

theorem non_admin_create_empty_title:
  "User_findById env0 store0 (u_id ann) = Inr (Some ann) \<and> \<not> admin ann \<and>
   post_games env0 store0 (u_id ann) (body0\<lparr>b_title := []\<rparr>) =
     (\<lparr>status = 400, body = Errors [''Title field can't be empty'']\<rparr>, store0) \<and>
   status (fst (post_games env0 store0 (u_id ann) (body0\<lparr>b_title := []\<rparr>))) \<noteq> 401"
  by (simp add: post_games_def title_check_def User_findById_def fixture_defs)

text \<open>
  Claim C8, as amended. The claim says that creating or deleting a game resolves to
  the internal error whenever the record of the acting user is gone. Both handlers
  have a check that comes first. When the lookup of the acting user yields nothing:
  neither handler changes the store; creating a game with a title that is not empty
  answers the internal error (status 500), and so does deleting a game that exists.
\<close>

theorem actor_gone_internal_error:
  assumes gone: "User_findById e s uid = Inr None"
  shows "snd (post_games e s uid b) = s \<and>
         snd (delete_game e s uid game_id) = s \<and>
         (b_title b \<noteq> [] \<longrightarrow> fst (post_games e s uid b) = server_error) \<and>
         (Game_findById e s game_id = Inr (Some g) \<longrightarrow>
            fst (delete_game e s uid game_id) = server_error)"
  by (simp add: post_games_actor_missing[OF gone] delete_game_actor_missing[OF gone]
      delete_game_actor_missing_store[OF gone])

text \<open>The theorem at an id that no user of \<open>store0\<close> has.\<close>

theorem actor_gone_internal_error_witness:
  "User_findById env0 store0 ''60a0000000000000000000ff'' = Inr None \<and>
   b_title body0 \<noteq> [] \<and>
   Game_findById env0 store0 (g_id quiz1) = Inr (Some quiz1) \<and>
   post_games env0 store0 ''60a0000000000000000000ff'' body0
     = (\<lparr>status = 500, body = Text ''Server error''\<rparr>, store0) \<and>
   delete_game env0 store0 ''60a0000000000000000000ff'' (g_id quiz1)
     = (\<lparr>status = 500, body = Text ''Server error''\<rparr>, store0)"
proof -
  have gone: "User_findById env0 store0 ''60a0000000000000000000ff'' = Inr None"
    by (simp add: User_findById_def fixture_defs)
  have t: "b_title body0 \<noteq> []"
    by (simp add: body0_def)
  have g: "Game_findById env0 store0 (g_id quiz1) = Inr (Some quiz1)"
    by (simp add: Game_findById_def fixture_defs)
  show ?thesis
    using actor_gone_internal_error[OF gone, of body0 "g_id quiz1" quiz1] gone t g
    by (simp add: server_error_def prod_eq_iff)
qed

text \<open>
  Claim C8 as stated fails: the record of the acting user is gone and so is the game
  to delete; the answer is "not found" (status 404), not the internal error.
\<close>

theorem actor_gone_game_gone_not_found:
  "User_findById env0 store0 ''60a0000000000000000000ff'' = Inr None \<and>
   delete_game env0 store0 ''60a0000000000000000000ff'' ''60a0000000000000000000ee''
     = (\<lparr>status = 404, body = Msg ''Game not found''\<rparr>, store0)"
  by (simp add: delete_game_def User_findById_def Game_findById_def fixture_defs)

section \<open>Registration\<close>

text \<open>
  Claim C9, as amended. The claim says that every registration request whose email is
  in the store yields the conflict outcome. The handler validates the body first. For
  a request whose email some user of the store has: the store is unchanged, so no
  second record is created, and the status is 400; when the body passes the checks
  the answer is the conflict outcome, status 400 with "User already exists".
\<close>

theorem register_existing_email:
  assumes "r_email b \<in> set (map email (user_coll s))"
  shows "snd (post_users e s b) = s \<and>
         status (fst (post_users e s b)) = 400 \<and>
         (register_checks e b = [] \<longrightarrow>
            fst (post_users e s b) = \<lparr>status = 400, body = Errors [''User already exists'']\<rparr>)"
  by (simp add: post_users_existing[OF assms])

text \<open>The theorem at the email of \<open>ann\<close> with a password of seven characters.\<close>

theorem register_existing_email_witness:
  "r_email \<lparr>r_email = ''ann@x.com'', r_password = ''secret1''\<rparr>
     \<in> set (map email (user_coll store0)) \<and>
   register_checks env0 \<lparr>r_email = ''ann@x.com'', r_password = ''secret1''\<rparr> = [] \<and>
   post_users env0 store0 \<lparr>r_email = ''ann@x.com'', r_password = ''secret1''\<rparr>
     = (\<lparr>status = 400, body = Errors [''User already exists'']\<rparr>, store0)"
proof -
  have ex: "r_email \<lparr>r_email = ''ann@x.com'', r_password = ''secret1''\<rparr>
              \<in> set (map email (user_coll store0))"
    by (simp add: store0_def ann_def)
  have ok: "register_checks env0 \<lparr>r_email = ''ann@x.com'', r_password = ''secret1''\<rparr> = []"
    by (simp add: register_checks_def fixture_defs)
  show ?thesis
    using register_existing_email[OF ex, of env0] ex ok by (simp add: prod_eq_iff)
qed

text \<open>
  Claim C9 as stated fails: the email of \<open>ann\<close> with a password of three characters
  gets the validation failure, whose body is not the conflict outcome.
\<close>

theorem register_existing_email_short_password:
  "r_email \<lparr>r_email = ''ann@x.com'', r_password = ''123''\<rparr>
     \<in> set (map email (user_coll store0)) \<and>
   post_users env0 store0 \<lparr>r_email = ''ann@x.com'', r_password = ''123''\<rparr>
     = (\<lparr>status = 400,
         body = Errors [''Please enter a password with 6 or more characters'']\<rparr>, store0) \<and>
   fst (post_users env0 store0 \<lparr>r_email = ''ann@x.com'', r_password = ''123''\<rparr>)
     \<noteq> \<lparr>status = 400, body = Errors [''User already exists'']\<rparr>"
  by (simp add: post_users_def register_checks_def fixture_defs)

section \<open>Listing the games\<close>

text \<open>
  Claim C10: the list of games needs no authentication (the answer is the same for
  every value of the token header, also a missing one), answers 200 with all games of
  the store, each as often as the store holds it, the later date before the earlier
  one; the \<^verbatim>\<open>order\<close> field plays no part: rewriting the \<^verbatim>\<open>order\<close> of the games in
  any way leaves the sequence of ids in the answer as it is.
\<close>

theorem games_listed_latest_first:
  "route a e s x_auth_token GetGames
     = (\<lparr>status = 200, body = GamesJson (Game_find_sorted s)\<rparr>, s) \<and>
   mset (Game_find_sorted s) = mset (game_coll s) \<and>
   sorted_wrt (\<lambda>g h. g_date h \<le> g_date g) (Game_find_sorted s) \<and>
   map g_id (Game_find_sorted (s\<lparr>game_coll := map (\<lambda>g. g\<lparr>g_order := f g\<rparr>) (game_coll s)\<rparr>))
     = map g_id (Game_find_sorted s)"
proof -
  have "mset (Game_find_sorted s) = mset (game_coll s)"
    by (simp add: Game_find_sorted_def)
  then show ?thesis
    by (simp add: get_games_def sorted_Game_find_sorted Game_find_sorted_order)
qed

end
